theory Spec2Isabelle
  imports Complex_Main "HOL-Library.Multiset"
begin

section \<open>Double precision\<close>

text \<open>
  \<^verbatim>\<open>G4double\<close> is an IEEE 754 binary64 number. A finite double is modelled by its value,
  a \<^typ>\<open>real\<close>. An addition or multiplication of the program computes the exact result and
  rounds it to the nearest double, ties to the even significand: a double has a
  significand of 53 bits, so for \<open>2\<^sup>k \<le> \<bar>x\<bar> < 2\<^sup>k\<^sup>+\<^sup>1\<close> the doubles around \<open>x\<close> are the
  multiples of \<open>2\<^sup>k\<^sup>-\<^sup>5\<^sup>2\<close>, and below the normal range they are the multiples of
  \<open>2\<^sup>-\<^sup>1\<^sup>0\<^sup>7\<^sup>4\<close>. \<open>ulp_exponent x\<close> is the exponent of that spacing and \<open>rnd\<close> the
  rounding.

  A result whose magnitude reaches \<open>2\<^sup>1\<^sup>0\<^sup>2\<^sup>4\<close> is an infinity in IEEE arithmetic;
  infinities and NaN have no value here. \<open>is_double\<close> holds of the values of the finite
  doubles, and every statement below that depends on exact sums assumes it of the values
  it depends on. Comparisons, and the division and the square root of the end of run, are
  taken on the values without rounding.

  \<^verbatim>\<open>G4int\<close> is modelled as \<^typ>\<open>int\<close> (signed overflow is undefined in C++ and is not
  reached by counting events).
\<close>

definition round_half_even :: "real \<Rightarrow> int" where
  "round_half_even y =
     (let f = \<lfloor>y\<rfloor>; r = y - real_of_int f
      in if r < 1 / 2 then f
         else if 1 / 2 < r then f + 1
         else if even f then f else f + 1)"

definition ulp_exponent :: "real \<Rightarrow> int" where
  "ulp_exponent x = max (\<lfloor>log 2 \<bar>x\<bar>\<rfloor> - 52) (- 1074)"

definition rnd :: "real \<Rightarrow> real" where
  "rnd x =
     (if x = 0 then 0
      else real_of_int (round_half_even (x / 2 powr real_of_int (ulp_exponent x)))
           * 2 powr real_of_int (ulp_exponent x))"

definition is_double :: "real \<Rightarrow> bool" where
  "is_double x = (rnd x = x \<and> \<bar>x\<bar> < 2 ^ 1024)"

text \<open>The operators \<^verbatim>\<open>+\<close> and \<^verbatim>\<open>*\<close> of \<^verbatim>\<open>G4double\<close>.\<close>

definition double_add :: "real \<Rightarrow> real \<Rightarrow> real" where
  "double_add x y = rnd (x + y)"

definition double_mul :: "real \<Rightarrow> real \<Rightarrow> real" where
  "double_mul x y = rnd (x * y)"

section \<open>Run-level energy accumulation (RunAction)\<close>

record RunAction =
  fOutputDir :: string
  fEdep :: real
  fEdep2 :: real

text \<open>
  \<^verbatim>\<open>void RunAction::AddEdep(G4double edep) { fEdep += edep; fEdep2 += edep * edep; }\<close>
  The square is rounded before it is added. (A compiler may contract the second statement
  into one fused operation with a single rounding; the statements below either concern
  \<^verbatim>\<open>fEdep\<close> only or assume that neither the square nor the sum rounds, so they hold
  either way.)
\<close>

definition AddEdep :: "RunAction \<Rightarrow> real \<Rightarrow> RunAction" where
  "AddEdep ra edep =
     ra\<lparr>fEdep := double_add (fEdep ra) edep,
        fEdep2 := double_add (fEdep2 ra) (double_mul edep edep)\<rparr>"

text \<open>
  Modelled from the spec: \<^verbatim>\<open>G4AccumulableManager::Reset\<close> is Geant4 library code that is
  not part of the sources; the spec's \<^verbatim>\<open>reset()\<close> "zeroes sums" of the registered
  accumulables \<^verbatim>\<open>fEdep\<close> and \<^verbatim>\<open>fEdep2\<close>.
\<close>

definition Reset :: "RunAction \<Rightarrow> RunAction" where
  "Reset ra = ra\<lparr>fEdep := 0, fEdep2 := 0\<rparr>"

text \<open>
  Modelled from the spec: \<^verbatim>\<open>G4AccumulableManager::Merge\<close> is Geant4 library code that is
  not part of the sources; the spec's \<^verbatim>\<open>mergeFrom(other)\<close> combines "one worker's final
  sums into the master's by field-wise addition"; the sums are \<^verbatim>\<open>G4double\<close>, so the
  addition is the double's.
\<close>

definition mergeFrom :: "RunAction \<Rightarrow> RunAction \<Rightarrow> RunAction" where
  "mergeFrom master other =
     master\<lparr>fEdep := double_add (fEdep master) (fEdep other),
            fEdep2 := double_add (fEdep2 master) (fEdep2 other)\<rparr>"

definition Merge :: "RunAction list \<Rightarrow> RunAction \<Rightarrow> RunAction" where
  "Merge workers master = foldl mergeFrom master workers"

text \<open>
  One thread's view of a run: its own \<^verbatim>\<open>RunAction\<close> and the event counter of its
  \<^verbatim>\<open>G4Run\<close> (read by \<^verbatim>\<open>run->GetNumberOfEvent()\<close>). The run manager calls
  \<^verbatim>\<open>EventAction::EndOfEventAction\<close> once per event, which calls
  \<^verbatim>\<open>fRunAction->AddEdep(fEdep)\<close>, and counts the event.
\<close>

record thread_run =
  action :: RunAction
  numberOfEvent :: int

definition begin_run :: "string \<Rightarrow> thread_run" where
  "begin_run dir = \<lparr>action = Reset \<lparr>fOutputDir = dir, fEdep = 0, fEdep2 = 0\<rparr>, numberOfEvent = 0\<rparr>"

definition process_event :: "thread_run \<Rightarrow> real \<Rightarrow> thread_run" where
  "process_event t edep =
     t\<lparr>action := AddEdep (action t) edep, numberOfEvent := numberOfEvent t + 1\<rparr>"

definition run_events :: "string \<Rightarrow> real list \<Rightarrow> thread_run" where
  "run_events dir events = foldl process_event (begin_run dir) events"

text \<open>
  Modelled from the spec: the run-end merge of the per-thread runs (\<^verbatim>\<open>G4Run::Merge\<close> and
  the accumulable merge, both Geant4 library code outside the sources) sums all three
  sufficient statistics field-wise.
\<close>

definition merge_run :: "thread_run \<Rightarrow> thread_run \<Rightarrow> thread_run" where
  "merge_run master worker =
     \<lparr>action = mergeFrom (action master) (action worker),
      numberOfEvent = numberOfEvent master + numberOfEvent worker\<rparr>"

section \<open>Units\<close>

text \<open>
  The unit constants come from \<^verbatim>\<open>G4SystemOfUnits.hh\<close> (CLHEP), which is not part of the
  sources; their values there are \<^verbatim>\<open>mm = 1\<close>, \<^verbatim>\<open>cm = 10 mm\<close>, \<^verbatim>\<open>MeV = 1\<close> and
  \<^verbatim>\<open>deg = pi/180\<close>.
\<close>

definition mm :: real where "mm = 1"
definition MeV :: real where "MeV = 1"

section \<open>Analysis output (Analysis)\<close>

text \<open>
  \<^verbatim>\<open>G4AnalysisManager\<close> is Geant4 library code; it is modelled by the log of the calls the
  program makes to it, in call order.
\<close>

datatype AM_call =
    AM_SetVerboseLevel int
  | AM_SetFileName string
  | AM_CreateH1 string string int real real string
  | AM_CreateH2 string string int real real int real real string string
  | AM_CreateNtuple string string
  | AM_CreateNtupleIColumn string
  | AM_CreateNtupleDColumn string
  | AM_FinishNtuple
  | AM_OpenFile
  | AM_Write
  | AM_CloseFile
  | AM_FillH1 int real
  | AM_FillH2 int real real
  | AM_FillNtupleIColumn int int
  | AM_FillNtupleDColumn int real
  | AM_AddNtupleRow

record Analysis =
  Analysis_fOutputDir :: string
  fBooked :: bool

record RunStatistics =
  totalEdep :: real
  meanEdep :: real
  rmsEdep :: real

text \<open>
  The state of one process: its \<^verbatim>\<open>RunAction\<close>, the \<^verbatim>\<open>Analysis\<close> singleton, the
  analysis manager's call log, and the end-of-run summaries written to \<^verbatim>\<open>G4cout\<close>
  (total, mean and rms; the other messages are not modelled).
\<close>

record process_state =
  runAction :: RunAction
  analysis :: Analysis
  analysisManager :: "AM_call list"
  cout :: "RunStatistics list"

definition SetOutputDirectory :: "string \<Rightarrow> process_state \<Rightarrow> process_state" where
  "SetOutputDirectory dir s = s\<lparr>analysis := (analysis s)\<lparr>Analysis_fOutputDir := dir\<rparr>\<rparr>"

definition Book :: "process_state \<Rightarrow> process_state" where
  "Book s =
     (if fBooked (analysis s) then s
      else
        let fileName = Analysis_fOutputDir (analysis s) @ ''/output'' in
        s\<lparr>analysisManager := analysisManager s @
             [AM_SetVerboseLevel 1,
              AM_SetFileName fileName,
              AM_CreateH1 ''Edep'' ''Energy deposit in detector'' 100 0 (10 * MeV) ''MeV'',
              AM_CreateH1 ''PosZ'' ''Hit position Z'' 100 (- 500 * mm) (500 * mm) ''mm'',
              AM_CreateH2 ''PosXY'' ''Hit position XY''
                100 (- 200 * mm) (200 * mm) 100 (- 200 * mm) (200 * mm) ''mm'' ''mm'',
              AM_CreateNtuple ''hits'' ''Hit data'',
              AM_CreateNtupleIColumn ''eventID'',
              AM_CreateNtupleDColumn ''edep'',
              AM_CreateNtupleDColumn ''posX'',
              AM_CreateNtupleDColumn ''posY'',
              AM_CreateNtupleDColumn ''posZ'',
              AM_CreateNtupleDColumn ''time'',
              AM_FinishNtuple,
              AM_OpenFile],
          analysis := (analysis s)\<lparr>fBooked := True\<rparr>\<rparr>)"

definition Save :: "process_state \<Rightarrow> process_state" where
  "Save s =
     s\<lparr>analysisManager := analysisManager s @ [AM_Write, AM_CloseFile],
       analysis := (analysis s)\<lparr>fBooked := False\<rparr>\<rparr>"

definition FillH1 :: "int \<Rightarrow> real \<Rightarrow> process_state \<Rightarrow> process_state" where
  "FillH1 i v s = s\<lparr>analysisManager := analysisManager s @ [AM_FillH1 i v]\<rparr>"

definition FillH2 :: "int \<Rightarrow> real \<Rightarrow> real \<Rightarrow> process_state \<Rightarrow> process_state" where
  "FillH2 i x y s = s\<lparr>analysisManager := analysisManager s @ [AM_FillH2 i x y]\<rparr>"

definition FillNtupleIColumn :: "int \<Rightarrow> int \<Rightarrow> process_state \<Rightarrow> process_state" where
  "FillNtupleIColumn i v s = s\<lparr>analysisManager := analysisManager s @ [AM_FillNtupleIColumn i v]\<rparr>"

definition FillNtupleDColumn :: "int \<Rightarrow> real \<Rightarrow> process_state \<Rightarrow> process_state" where
  "FillNtupleDColumn i v s = s\<lparr>analysisManager := analysisManager s @ [AM_FillNtupleDColumn i v]\<rparr>"

text \<open>\<^verbatim>\<open>Analysis::FillNtupleSColumn\<close> has an empty body.\<close>

definition FillNtupleSColumn :: "int \<Rightarrow> string \<Rightarrow> process_state \<Rightarrow> process_state" where
  "FillNtupleSColumn i v s = s"

definition AddNtupleRow :: "process_state \<Rightarrow> process_state" where
  "AddNtupleRow s = s\<lparr>analysisManager := analysisManager s @ [AM_AddNtupleRow]\<rparr>"

text \<open>The public interface of \<^verbatim>\<open>Analysis\<close>, as a datatype of calls, and a run of calls.\<close>

datatype Analysis_call =
    Call_SetOutputDirectory string
  | Call_Book
  | Call_Save
  | Call_FillH1 int real
  | Call_FillH2 int real real
  | Call_FillNtupleIColumn int int
  | Call_FillNtupleDColumn int real
  | Call_FillNtupleSColumn int string
  | Call_AddNtupleRow

fun Analysis_do :: "Analysis_call \<Rightarrow> process_state \<Rightarrow> process_state" where
  "Analysis_do (Call_SetOutputDirectory dir) s = SetOutputDirectory dir s"
| "Analysis_do Call_Book s = Book s"
| "Analysis_do Call_Save s = Save s"
| "Analysis_do (Call_FillH1 i v) s = FillH1 i v s"
| "Analysis_do (Call_FillH2 i x y) s = FillH2 i x y s"
| "Analysis_do (Call_FillNtupleIColumn i v) s = FillNtupleIColumn i v s"
| "Analysis_do (Call_FillNtupleDColumn i v) s = FillNtupleDColumn i v s"
| "Analysis_do (Call_FillNtupleSColumn i v) s = FillNtupleSColumn i v s"
| "Analysis_do Call_AddNtupleRow s = AddNtupleRow s"

section \<open>Begin and end of run\<close>

text \<open>
  \<^verbatim>\<open>RunAction::BeginOfRunAction\<close>: reset the accumulables, set the output directory of the
  analysis, book.
\<close>

definition BeginOfRunAction :: "process_state \<Rightarrow> process_state" where
  "BeginOfRunAction s =
     (let s1 = s\<lparr>runAction := Reset (runAction s)\<rparr>;
          s2 = SetOutputDirectory (fOutputDir (runAction s1)) s1
      in Book s2)"

text \<open>
  \<^verbatim>\<open>RunAction::EndOfRunAction\<close>. \<open>nofEvents\<close> is \<^verbatim>\<open>run->GetNumberOfEvent()\<close>, \<open>isMaster\<close> is
  \<^verbatim>\<open>IsMaster()\<close>, and \<open>workers\<close> are the accumulables that \<^verbatim>\<open>accumulableManager->Merge()\<close>
  adds to this thread's (none in a sequential run).
  \<^verbatim>\<open>
    if (nofEvents == 0) return;
    accumulableManager->Merge();
    G4double edep = fEdep; G4double edep2 = fEdep2;
    G4double rms = edep2 - edep*edep/nofEvents;
    if (rms > 0.) rms = std::sqrt(rms); else rms = 0.;
    if (IsMaster()) { G4cout << ... edep ... edep/nofEvents ... rms/nofEvents ... }
    analysis->Save();
  \<close>
\<close>

definition EndOfRunAction :: "int \<Rightarrow> bool \<Rightarrow> RunAction list \<Rightarrow> process_state \<Rightarrow> process_state" where
  "EndOfRunAction nofEvents isMaster workers s =
     (if nofEvents = 0 then s
      else
        let ra = Merge workers (runAction s);
            edep = fEdep ra;
            edep2 = fEdep2 ra;
            rms = edep2 - edep * edep / real_of_int nofEvents;
            rms = (if rms > 0 then sqrt rms else 0);
            out = (if isMaster
                   then cout s @ [\<lparr>totalEdep = edep,
                                   meanEdep = edep / real_of_int nofEvents,
                                   rmsEdep = rms / real_of_int nofEvents\<rparr>]
                   else cout s)
        in Save (s\<lparr>runAction := ra, cout := out\<rparr>))"

text \<open>
  A process right after construction: \<^verbatim>\<open>RunAction::RunAction(outputDir)\<close> sets
  \<^verbatim>\<open>fEdep(0.)\<close> and \<^verbatim>\<open>fEdep2(0.)\<close>; \<^verbatim>\<open>Analysis::Analysis()\<close> sets \<^verbatim>\<open>fOutputDir(".")\<close> and
  \<^verbatim>\<open>fBooked(false)\<close>; nothing has been sent to the analysis manager or printed.
\<close>

definition fresh_process :: "string \<Rightarrow> process_state" where
  "fresh_process outputDir =
     \<lparr>runAction = \<lparr>fOutputDir = outputDir, fEdep = 0, fEdep2 = 0\<rparr>,
      analysis = \<lparr>Analysis_fOutputDir = ''.'', fBooked = False\<rparr>,
      analysisManager = [],
      cout = []\<rparr>"

subsection \<open>The accumulator as the specification words it\<close>

text \<open>
  The following definitions follow the specification, not the sources; they are what the
  code is compared with. The specified accumulator has the states
  \<open>Idle\<close>, \<open>Accumulating\<close> and \<open>Merged\<close>; \<^verbatim>\<open>update\<close> is "valid only in Accumulating; adds
  deposit and deposit squared to running sums" (sums of doubles, added as doubles), and
  out of sequence it is an \<^verbatim>\<open>InvalidStateError\<close>.
\<close>

datatype acc_state = Idle | Accumulating | Merged



text \<open>
  The specified boundary case: deriving the statistics yields one summary whose mean and
  rms are the sentinel 0. \<open>s\<close> is the state before and \<open>s'\<close> the state after.
\<close>

definition yields_sentinel :: "process_state \<Rightarrow> process_state \<Rightarrow> bool" where
  "yields_sentinel s s' =
     (length (cout s') = Suc (length (cout s)) \<and>
      meanEdep (last (cout s')) = 0 \<and> rmsEdep (last (cout s')) = 0)"

subsection \<open>Sums without rounding\<close>

text \<open>
  \<open>exact_sums acc xs\<close>: adding the values \<open>xs\<close> to \<open>acc\<close> one after the other, every sum is
  the value of a finite double, so no addition rounds. \<open>exact_run events\<close>: in a run of
  these events from the reset accumulator neither a square nor a sum rounds.
\<close>

fun exact_sums :: "real \<Rightarrow> real list \<Rightarrow> bool" where
  "exact_sums acc [] = True"
| "exact_sums acc (x # xs) = (is_double (acc + x) \<and> exact_sums (acc + x) xs)"

definition exact_run :: "real list \<Rightarrow> bool" where
  "exact_run events =
     (exact_sums 0 events \<and> list_all (\<lambda>e. is_double (e * e)) events \<and>
      exact_sums 0 (map (\<lambda>e. e * e) events))"

section \<open>Sensitive detectors\<close>

text \<open>
  A \<^verbatim>\<open>G4Step\<close> is Geant4 library data; the record holds what the two
  \<^verbatim>\<open>ProcessHits\<close> read from it: the total energy deposit, the track's ids and particle,
  the pre-step point (position, momentum, kinetic energy, times, touchable copy number), the
  post-step point (position, global time) and the name of the process that defined the
  step (\<open>None\<close> for a null \<^verbatim>\<open>GetProcessDefinedStep()\<close>).
\<close>

type_synonym G4ThreeVector = "real \<times> real \<times> real"

record G4Step =
  TotalEnergyDeposit :: real
  TrackID :: int
  ParentID :: int
  ParticleName :: string
  PDGEncoding :: int
  PreStepPosition :: G4ThreeVector
  PreStepMomentum :: G4ThreeVector
  PreStepKineticEnergy :: real
  PreStepGlobalTime :: real
  PreStepLocalTime :: real
  PreStepCopyNumber :: int
  PostStepPosition :: G4ThreeVector
  PostStepGlobalTime :: real
  ProcessDefinedStep :: "string option"

record DetectorHit =
  fEventID :: int
  fTrackID :: int
  fParentID :: int
  fParticleName :: string
  fParticlePDG :: int
  fPosition :: G4ThreeVector
  fMomentum :: G4ThreeVector
  fKineticEnergy :: real
  fEnergyDeposit :: real
  fGlobalTime :: real
  fLocalTime :: real
  fProcessName :: string

text \<open>
  \<^verbatim>\<open>fHitsCollection\<close> is a pointer, null (\<open>None\<close>) until \<^verbatim>\<open>Initialize\<close> has run; the
  collection is the list of its hits in insertion order. Inserting through the null
  pointer is undefined in C++ and is the error \<open>NullHitsCollection\<close> here.
\<close>

record SensitiveDetector =
  fHitsCollection :: "DetectorHit list option"
  fHCID :: int

datatype sd_error = NullHitsCollection

text \<open>
  \<^verbatim>\<open>SensitiveDetector::Initialize\<close>: a new, empty collection; \<^verbatim>\<open>fHCID\<close> is looked up once
  (\<open>collectionID\<close> is what \<^verbatim>\<open>G4SDManager::GetCollectionID\<close> returns).
\<close>

definition Initialize :: "int \<Rightarrow> SensitiveDetector \<Rightarrow> SensitiveDetector" where
  "Initialize collectionID sd =
     (let sd1 = sd\<lparr>fHitsCollection := Some []\<rparr>
      in if fHCID sd1 < 0 then sd1\<lparr>fHCID := collectionID\<rparr> else sd1)"

text \<open>
  \<^verbatim>\<open>SensitiveDetector::ProcessHits\<close>; \<open>eventID\<close> is the id of the run manager's current event.
  \<^verbatim>\<open>
    G4double edep = step->GetTotalEnergyDeposit();
    if (edep <= 0) return false;
    DetectorHit* hit = new DetectorHit();   // all fields 0 or ""
    hit->SetEventID(...); ... hit->SetLocalTime(preStep->GetLocalTime());
    if (step->GetPostStepPoint()->GetProcessDefinedStep()) hit->SetProcessName(...);
    fHitsCollection->insert(hit);
    return true;
  \<close>
\<close>

definition ProcessHits :: "int \<Rightarrow> G4Step \<Rightarrow> SensitiveDetector \<Rightarrow> sd_error + bool \<times> SensitiveDetector" where
  "ProcessHits eventID step sd =
     (let edep = TotalEnergyDeposit step in
      if edep \<le> 0 then Inr (False, sd)
      else
        let hit = \<lparr>fEventID = eventID,
                   fTrackID = TrackID step,
                   fParentID = ParentID step,
                   fParticleName = ParticleName step,
                   fParticlePDG = PDGEncoding step,
                   fPosition = PreStepPosition step,
                   fMomentum = PreStepMomentum step,
                   fKineticEnergy = PreStepKineticEnergy step,
                   fEnergyDeposit = edep,
                   fGlobalTime = PreStepGlobalTime step,
                   fLocalTime = PreStepLocalTime step,
                   fProcessName = (case ProcessDefinedStep step of None \<Rightarrow> [] | Some name \<Rightarrow> name)\<rparr>
        in case fHitsCollection sd of
             None \<Rightarrow> Inl NullHitsCollection
           | Some hc \<Rightarrow> Inr (True, sd\<lparr>fHitsCollection := Some (hc @ [hit])\<rparr>))"

text \<open>
  The B2a tracker: \<^verbatim>\<open>B2a::TrackerHit\<close> and \<^verbatim>\<open>B2a::TrackerSD\<close>. Field names that the
  generic application also uses carry the class name as a prefix.
\<close>

record TrackerHit =
  TrackerHit_fTrackID :: int
  fChamberNb :: int
  TrackerHit_fEdep :: real
  fPos :: G4ThreeVector
  fTime :: real
  TrackerHit_fParticleName :: string

record TrackerSD =
  TrackerSD_fHitsCollection :: "TrackerHit list option"

definition TrackerSD_Initialize :: "TrackerSD \<Rightarrow> TrackerSD" where
  "TrackerSD_Initialize sd = sd\<lparr>TrackerSD_fHitsCollection := Some []\<rparr>"

text \<open>
  \<^verbatim>\<open>B2a::TrackerSD::ProcessHits\<close>:
  \<^verbatim>\<open>
    G4double edep = aStep->GetTotalEnergyDeposit();
    if (edep == 0.) return false;
    auto newHit = new TrackerHit();
    newHit->SetTrackID(...); newHit->SetChamberNb(... GetCopyNumber()); newHit->SetEdep(edep);
    newHit->SetPos(postStep position); newHit->SetTime(postStep global time);
    newHit->SetParticleName(...);
    fHitsCollection->insert(newHit);
    return true;
  \<close>
\<close>

definition TrackerSD_ProcessHits :: "G4Step \<Rightarrow> TrackerSD \<Rightarrow> sd_error + bool \<times> TrackerSD" where
  "TrackerSD_ProcessHits aStep sd =
     (let edep = TotalEnergyDeposit aStep in
      if edep = 0 then Inr (False, sd)
      else
        let newHit = \<lparr>TrackerHit_fTrackID = TrackID aStep,
                      fChamberNb = PreStepCopyNumber aStep,
                      TrackerHit_fEdep = edep,
                      fPos = PostStepPosition aStep,
                      fTime = PostStepGlobalTime aStep,
                      TrackerHit_fParticleName = ParticleName aStep\<rparr>
        in case TrackerSD_fHitsCollection sd of
             None \<Rightarrow> Inl NullHitsCollection
           | Some hc \<Rightarrow> Inr (True, sd\<lparr>TrackerSD_fHitsCollection := Some (hc @ [newHit])\<rparr>))"

text \<open>A sample step, with the energy deposit left open.\<close>

definition a_step :: "real \<Rightarrow> G4Step" where
  "a_step edep =
     \<lparr>TotalEnergyDeposit = edep, TrackID = 1, ParentID = 0, ParticleName = ''e-'',
      PDGEncoding = 11, PreStepPosition = (0, 0, 0), PreStepMomentum = (0, 0, 1),
      PreStepKineticEnergy = 3, PreStepGlobalTime = 0, PreStepLocalTime = 0,
      PreStepCopyNumber = 2, PostStepPosition = (0, 0, 1), PostStepGlobalTime = 1,
      ProcessDefinedStep = Some ''eIoni''\<rparr>"

section \<open>B2a geometry\<close>












section \<open>GDML geometry and sensitive volumes\<close>

text \<open>
  The generic application's \<^verbatim>\<open>DetectorConstruction\<close>. A logical volume is its name and
  the logical volumes of its daughters, in daughter order. The GDML parser is Geant4
  library code; it is modelled by its \<^verbatim>\<open>GetVolumeAuxiliaryInformation\<close>, which gives a
  volume's auxiliary list or null. \<^verbatim>\<open>fParser\<close> is null until \<^verbatim>\<open>LoadGDML\<close> has run.
  \<^verbatim>\<open>fSensitiveVolumes\<close> is a \<^verbatim>\<open>std::vector\<close> (a list) and \<^verbatim>\<open>fLogicalVolumes\<close> a
  \<^verbatim>\<open>std::map\<close> from names to volumes.
\<close>

datatype G4LogicalVolume = G4LogicalVolume (GetName: string) (GetDaughters: "G4LogicalVolume list")

record G4GDMLAuxStructType =
  aux_type :: string
  aux_value :: string

type_synonym G4GDMLParser = "G4LogicalVolume \<Rightarrow> G4GDMLAuxStructType list option"

record DetectorConstruction =
  fGdmlFile :: string
  fParser :: "G4GDMLParser option"
  fWorldLogical :: "G4LogicalVolume option"
  fSensitiveVolumes :: "string list"
  fLogicalVolumes :: "string \<rightharpoonup> G4LogicalVolume"

text \<open>
  \<^verbatim>\<open>DetectorConstruction::FindSensitiveVolumes\<close>:
  \<^verbatim>\<open>
    if (fParser) {
      const G4GDMLAuxListType* auxList = fParser->GetVolumeAuxiliaryInformation(lv);
      if (auxList) {
        for (auto& aux : *auxList) {
          if (aux.type == "SensDet") {
            fSensitiveVolumes.push_back(lv->GetName());
            fLogicalVolumes[lv->GetName()] = lv;
          }
        }
      }
    }
    for (size_t i = 0; i < lv->GetNoDaughters(); i++) {
      G4VPhysicalVolume* pv = lv->GetDaughter(i);
      FindSensitiveVolumes(pv->GetLogicalVolume());
    }
  \<close>
  \<open>aux_loop\<close> is the loop over the auxiliary list, \<open>check_aux\<close> the first block and
  \<open>daughters_loop\<close> the loop over the daughters.
\<close>

fun aux_loop :: "G4LogicalVolume \<Rightarrow> G4GDMLAuxStructType list \<Rightarrow> DetectorConstruction \<Rightarrow> DetectorConstruction" where
  "aux_loop lv [] dc = dc"
| "aux_loop lv (aux # auxList) dc =
     aux_loop lv auxList
       (if aux_type aux = ''SensDet''
        then dc\<lparr>fSensitiveVolumes := fSensitiveVolumes dc @ [GetName lv],
                fLogicalVolumes := (fLogicalVolumes dc)(GetName lv \<mapsto> lv)\<rparr>
        else dc)"

definition check_aux :: "G4LogicalVolume \<Rightarrow> DetectorConstruction \<Rightarrow> DetectorConstruction" where
  "check_aux lv dc =
     (case fParser dc of
        None \<Rightarrow> dc
      | Some parser \<Rightarrow>
          (case parser lv of
             None \<Rightarrow> dc
           | Some auxList \<Rightarrow> aux_loop lv auxList dc))"

fun FindSensitiveVolumes :: "G4LogicalVolume \<Rightarrow> DetectorConstruction \<Rightarrow> DetectorConstruction"
  and daughters_loop :: "G4LogicalVolume list \<Rightarrow> DetectorConstruction \<Rightarrow> DetectorConstruction" where
  "FindSensitiveVolumes (G4LogicalVolume name ds) dc =
     daughters_loop ds (check_aux (G4LogicalVolume name ds) dc)"
| "daughters_loop [] dc = dc"
| "daughters_loop (d # ds) dc = daughters_loop ds (FindSensitiveVolumes d dc)"

text \<open>
  \<^verbatim>\<open>DetectorConstruction::LoadGDML\<close>: a new parser reads the file (\<open>parser\<close> and \<open>world\<close> are
  what it read), then the sensitive volumes are searched from the world volume.
\<close>

definition LoadGDML :: "G4GDMLParser \<Rightarrow> G4LogicalVolume \<Rightarrow> DetectorConstruction \<Rightarrow> DetectorConstruction" where
  "LoadGDML parser world dc =
     FindSensitiveVolumes world (dc\<lparr>fParser := Some parser, fWorldLogical := Some world\<rparr>)"

text \<open>
  For the proofs: \<open>found p lv\<close> lists the (name, volume) pairs one traversal of \<open>lv\<close>
  records under the parser \<open>p\<close>, in order, and \<open>assign\<close> records such a list.
\<close>

definition assign :: "(string \<times> G4LogicalVolume) list \<Rightarrow> DetectorConstruction \<Rightarrow> DetectorConstruction" where
  "assign kvs dc =
     dc\<lparr>fSensitiveVolumes := fSensitiveVolumes dc @ map fst kvs,
        fLogicalVolumes := fLogicalVolumes dc ++ map_of (rev kvs)\<rparr>"

definition found_aux :: "G4LogicalVolume \<Rightarrow> G4GDMLAuxStructType list \<Rightarrow> (string \<times> G4LogicalVolume) list" where
  "found_aux lv auxList = map (\<lambda>a. (GetName lv, lv)) (filter (\<lambda>a. aux_type a = ''SensDet'') auxList)"

definition found_here :: "G4GDMLParser option \<Rightarrow> G4LogicalVolume \<Rightarrow> (string \<times> G4LogicalVolume) list" where
  "found_here p lv =
     (case p of None \<Rightarrow> []
      | Some parser \<Rightarrow> (case parser lv of None \<Rightarrow> [] | Some auxList \<Rightarrow> found_aux lv auxList))"

fun found :: "G4GDMLParser option \<Rightarrow> G4LogicalVolume \<Rightarrow> (string \<times> G4LogicalVolume) list"
  and found_list :: "G4GDMLParser option \<Rightarrow> G4LogicalVolume list \<Rightarrow> (string \<times> G4LogicalVolume) list" where
  "found p (G4LogicalVolume name ds) = found_here p (G4LogicalVolume name ds) @ found_list p ds"
| "found_list p [] = []"
| "found_list p (d # ds) = found p d @ found_list p ds"

text \<open>A sample geometry: a world with one daughter that carries a \<^verbatim>\<open>SensDet\<close> tag.\<close>

definition gdml_world :: G4LogicalVolume where
  "gdml_world = G4LogicalVolume ''World'' [G4LogicalVolume ''Det'' []]"

definition gdml_parser :: G4GDMLParser where
  "gdml_parser lv =
     (if GetName lv = ''Det'' then Some [\<lparr>aux_type = ''SensDet'', aux_value = ''Tracker''\<rparr>] else None)"

definition gdml_detector :: DetectorConstruction where
  "gdml_detector =
     \<lparr>fGdmlFile = ''geometry.gdml'', fParser = Some gdml_parser, fWorldLogical = Some gdml_world,
      fSensitiveVolumes = [], fLogicalVolumes = Map.empty\<rparr>"

section \<open>Properties\<close>

subsection \<open>Rounding to double\<close>

lemma round_half_even_of_int: "round_half_even (real_of_int n) = n"
  by (simp add: round_half_even_def)

lemma ulp_exponent_eq:
  assumes "2 powr real_of_int k \<le> \<bar>x\<bar>" and "\<bar>x\<bar> < 2 powr real_of_int (k + 1)" and "- 1022 \<le> k"
  shows "ulp_exponent x = k - 52"
proof -
  have pos: "0 < \<bar>x\<bar>"
    using assms(1) by (smt (verit) powr_gt_zero)
  have "\<lfloor>log 2 \<bar>x\<bar>\<rfloor> = k"
    using assms(1,2) pos by (simp add: floor_log_eq_powr_iff)
  then show ?thesis
    using assms(3) by (simp add: ulp_exponent_def)
qed

lemma rnd_eval:
  assumes "2 powr real_of_int k \<le> \<bar>x\<bar>" and "\<bar>x\<bar> < 2 powr real_of_int (k + 1)" and "- 1022 \<le> k"
  shows "rnd x = real_of_int (round_half_even (x / 2 powr real_of_int (k - 52))) * 2 powr real_of_int (k - 52)"
proof -
  have "x \<noteq> 0"
    using assms(1) by (smt (verit) powr_gt_zero)
  then show ?thesis
    by (simp add: rnd_def ulp_exponent_eq [OF assms])
qed

lemma rnd_Ints:
  assumes "x \<in> \<int>" and "\<bar>x\<bar> < 2 ^ 53"
  shows "rnd x = x"
proof (cases "x = 0")
  case True
  then show ?thesis by (simp add: rnd_def)
next
  case False
  from assms(1) obtain n :: int where x: "x = real_of_int n"
    by (auto elim: Ints_cases)
  with False have n1: "1 \<le> \<bar>n\<bar>" by simp
  then have ge1: "1 \<le> \<bar>x\<bar>" using x by simp
  define k where "k = \<lfloor>log 2 \<bar>x\<bar>\<rfloor>"
  have k0: "0 \<le> k"
    using ge1 by (simp add: k_def)
  have "log 2 \<bar>x\<bar> < 53"
    using assms(2) ge1 by (simp add: log_less_iff)
  then have k52: "k \<le> 52"
    unfolding k_def by linarith
  define e where "e = k - 52"
  have e: "ulp_exponent x = e"
    using k0 by (simp add: ulp_exponent_def k_def e_def)
  define d where "d = nat (52 - k)"
  have kd: "e = - int d"
    using k52 by (simp add: d_def e_def)
  have p: "2 powr real_of_int e = 1 / 2 ^ d"
    unfolding kd by (simp add: powr_minus powr_realpow divide_inverse)
  have "x / 2 powr real_of_int e = real_of_int (n * 2 ^ d)"
    by (simp add: p x)
  then have r: "round_half_even (x / 2 powr real_of_int e) = n * 2 ^ d"
    by (simp only: round_half_even_of_int)
  have "rnd x = real_of_int (round_half_even (x / 2 powr real_of_int e)) * 2 powr real_of_int e"
    using False by (simp add: rnd_def e)
  also have "\<dots> = real_of_int (n * 2 ^ d) * 2 powr real_of_int e"
    by (simp only: r)
  also have "\<dots> = real_of_int (n * 2 ^ d) * (1 / 2 ^ d)"
    by (simp only: p)
  also have "\<dots> = x"
    by (simp add: x)
  finally show ?thesis .
qed

lemma is_double_Ints: "x \<in> \<int> \<Longrightarrow> \<bar>x\<bar> < 2 ^ 53 \<Longrightarrow> is_double x"
proof -
  assume a: "x \<in> \<int>" "\<bar>x\<bar> < 2 ^ 53"
  have "(2::real) ^ 53 < 2 ^ 1024" by simp
  with a show ?thesis by (simp add: is_double_def rnd_Ints)
qed

text \<open>Around \<open>2\<^sup>5\<^sup>3 = 9007199254740992\<close> the doubles are the even integers.\<close>

lemma rnd_2_53: "rnd 9007199254740992 = 9007199254740992"
  using rnd_eval [of 53 9007199254740992] by (simp add: round_half_even_def)

lemma rnd_2_53_plus_1: "rnd 9007199254740993 = 9007199254740992"
  using rnd_eval [of 53 9007199254740993] by (simp add: round_half_even_def)

lemma rnd_2_53_plus_2: "rnd 9007199254740994 = 9007199254740994"
  using rnd_eval [of 53 9007199254740994] by (simp add: round_half_even_def)

text \<open>The double nearest to one tenth, as a check of \<open>rnd\<close> against the known value.\<close>

lemma rnd_tenth: "rnd (1 / 10) = 3602879701896397 / 36028797018963968"
  using rnd_eval [of "- 4" "1 / 10"] by (simp add: round_half_even_def powr_minus)

subsection \<open>Sums held after a sequence of events\<close>

lemma fEdep_AddEdep: "fEdep (AddEdep ra edep) = double_add (fEdep ra) edep"
  by (simp add: AddEdep_def)

lemma fEdep2_AddEdep: "fEdep2 (AddEdep ra edep) = double_add (fEdep2 ra) (double_mul edep edep)"
  by (simp add: AddEdep_def)

lemma fOutputDir_AddEdep: "fOutputDir (AddEdep ra edep) = fOutputDir ra"
  by (simp add: AddEdep_def)

lemma double_add_exact: "is_double (x + y) \<Longrightarrow> double_add x y = x + y"
  by (simp add: double_add_def is_double_def)

lemma double_mul_exact: "is_double (x * y) \<Longrightarrow> double_mul x y = x * y"
  by (simp add: double_mul_def is_double_def)

lemma foldl_AddEdep_exact:
  "exact_sums (fEdep ra) events \<Longrightarrow> fEdep (foldl AddEdep ra events) = fEdep ra + sum_list events"
proof (induction events arbitrary: ra)
  case Nil
  then show ?case by simp
next
  case (Cons e events)
  from Cons.prems have 1: "is_double (fEdep ra + e)" and 2: "exact_sums (fEdep ra + e) events"
    by simp_all
  have f: "fEdep (AddEdep ra e) = fEdep ra + e"
    by (simp add: fEdep_AddEdep double_add_exact [OF 1])
  from 2 have "exact_sums (fEdep (AddEdep ra e)) events"
    by (simp add: f)
  from Cons.IH [OF this] show ?case
    by (simp add: f)
qed

lemma sum_list_mset_cong:
  fixes xs ys :: "real list"
  assumes "mset xs = mset ys"
  shows "sum_list xs = sum_list ys"
proof -
  have "sum_list xs = sum_mset (mset xs)" by (simp add: sum_mset_sum_list)
  also have "\<dots> = sum_mset (mset ys)" using assms by simp
  also have "\<dots> = sum_list ys" by (simp add: sum_mset_sum_list)
  finally show ?thesis .
qed

text \<open>
  C7, as stated, fails: fed \<open>2\<^sup>5\<^sup>3, 1, 1\<close> the accumulator ends with \<open>2\<^sup>5\<^sup>3\<close> (each
  \<open>2\<^sup>5\<^sup>3 + 1\<close> is a tie and rounds back to \<open>2\<^sup>5\<^sup>3\<close>), which is not the arithmetic sum
  \<open>2\<^sup>5\<^sup>3 + 2\<close>; fed the permutation \<open>1, 1, 2\<^sup>5\<^sup>3\<close> it ends with \<open>2\<^sup>5\<^sup>3 + 2\<close>.
\<close>

theorem AddEdep_order_counterexample:
  "mset [1, 1, 9007199254740992 :: real] = mset [9007199254740992, 1, 1] \<and>
   sum_list [9007199254740992, 1, 1 :: real] = 9007199254740994 \<and>
   fEdep (foldl AddEdep (Reset \<lparr>fOutputDir = ''out'', fEdep = 7, fEdep2 = 9\<rparr>)
            [9007199254740992, 1, 1]) = 9007199254740992 \<and>
   fEdep (foldl AddEdep (Reset \<lparr>fOutputDir = ''out'', fEdep = 7, fEdep2 = 9\<rparr>)
            [1, 1, 9007199254740992]) = 9007199254740994"
  by (simp add: fEdep_AddEdep Reset_def double_add_def rnd_Ints rnd_2_53 rnd_2_53_plus_1
      rnd_2_53_plus_2)

text \<open>
  C7, amended: for every finite sequence of per-event deposits fed to one accumulator
  through \<^verbatim>\<open>AddEdep\<close>, starting from the reset accumulator, if no addition rounds (every
  partial sum is the value of a finite double) the final \<^verbatim>\<open>fEdep\<close> is the arithmetic sum
  of the deposits, and every permutation of the sequence in which no addition rounds
  either ends with the same \<^verbatim>\<open>fEdep\<close>.
\<close>

theorem AddEdep_exact_sum:
  assumes "exact_sums 0 events"
  shows "fEdep (foldl AddEdep (Reset ra) events) = sum_list events \<and>
         (exact_sums 0 events' \<and> mset events' = mset events \<longrightarrow>
            fEdep (foldl AddEdep (Reset ra) events') = fEdep (foldl AddEdep (Reset ra) events))"
proof -
  have a: "fEdep (foldl AddEdep (Reset ra) es) = sum_list es" if "exact_sums 0 es" for es
    using foldl_AddEdep_exact [of "Reset ra" es] that by (simp add: Reset_def)
  show ?thesis
    using a [OF assms] a [of events'] sum_list_mset_cong [of events' events] by auto
qed

theorem AddEdep_exact_sum_witness:
  "exact_sums 0 [1, 0, 2] \<and>
   fEdep (foldl AddEdep (Reset \<lparr>fOutputDir = ''out'', fEdep = 7, fEdep2 = 9\<rparr>) [1, 0, 2]) = 3 \<and>
   exact_sums 0 [2, 1, 0] \<and> mset [2, 1, 0 :: real] = mset [1, 0, 2] \<and>
   fEdep (foldl AddEdep (Reset \<lparr>fOutputDir = ''out'', fEdep = 7, fEdep2 = 9\<rparr>) [2, 1, 0]) =
   fEdep (foldl AddEdep (Reset \<lparr>fOutputDir = ''out'', fEdep = 7, fEdep2 = 9\<rparr>) [1, 0, 2])"
proof -
  have h: "exact_sums 0 [1, 0, 2]"
    by (simp add: is_double_Ints)
  have h': "exact_sums 0 [2, 1, 0]"
    by (simp add: is_double_Ints)
  have m: "mset [2, 1, 0 :: real] = mset [1, 0, 2]"
    by simp
  from AddEdep_exact_sum [OF h, of "\<lparr>fOutputDir = ''out'', fEdep = 7, fEdep2 = 9\<rparr>" "[2, 1, 0]"] h h' m
  show ?thesis by simp
qed

subsection \<open>Merging the workers' sums\<close>

lemma sum_list_map_mset_cong:
  fixes f :: "'a \<Rightarrow> 'b::comm_monoid_add"
  assumes "mset xs = mset ys"
  shows "sum_list (map f xs) = sum_list (map f ys)"
proof -
  have "mset (map f xs) = mset (map f ys)"
    using assms by (metis mset_map)
  then have "sum_mset (mset (map f xs)) = sum_mset (mset (map f ys))"
    by simp
  then show ?thesis
    by (simp only: sum_mset_sum_list)
qed

lemma fEdep_process_event:
  "fEdep (action (process_event t edep)) = double_add (fEdep (action t)) edep"
  by (simp add: process_event_def fEdep_AddEdep)

lemma fEdep2_process_event:
  "fEdep2 (action (process_event t edep)) = double_add (fEdep2 (action t)) (double_mul edep edep)"
  by (simp add: process_event_def fEdep2_AddEdep)

lemma fEdep_merge_run:
  "fEdep (action (merge_run m w)) = double_add (fEdep (action m)) (fEdep (action w))"
  by (simp add: merge_run_def mergeFrom_def)

lemma fEdep2_merge_run:
  "fEdep2 (action (merge_run m w)) = double_add (fEdep2 (action m)) (fEdep2 (action w))"
  by (simp add: merge_run_def mergeFrom_def)

lemma run_events_fEdep:
  "exact_sums (fEdep (action t)) events \<Longrightarrow>
   fEdep (action (foldl process_event t events)) = fEdep (action t) + sum_list events"
proof (induction events arbitrary: t)
  case Nil
  then show ?case by simp
next
  case (Cons e events)
  from Cons.prems have 1: "is_double (fEdep (action t) + e)"
    and 2: "exact_sums (fEdep (action t) + e) events"
    by simp_all
  have f: "fEdep (action (process_event t e)) = fEdep (action t) + e"
    by (simp add: fEdep_process_event double_add_exact [OF 1])
  from 2 have "exact_sums (fEdep (action (process_event t e))) events"
    by (simp add: f)
  from Cons.IH [OF this] show ?case
    by (simp add: f)
qed

lemma run_events_fEdep2:
  "list_all (\<lambda>e. is_double (e * e)) events \<Longrightarrow>
   exact_sums (fEdep2 (action t)) (map (\<lambda>e. e * e) events) \<Longrightarrow>
   fEdep2 (action (foldl process_event t events)) =
     fEdep2 (action t) + sum_list (map (\<lambda>e. e * e) events)"
proof (induction events arbitrary: t)
  case Nil
  then show ?case by simp
next
  case (Cons e events)
  from Cons.prems have 0: "is_double (e * e)" and r: "list_all (\<lambda>e. is_double (e * e)) events"
    and 1: "is_double (fEdep2 (action t) + e * e)"
    and 2: "exact_sums (fEdep2 (action t) + e * e) (map (\<lambda>e. e * e) events)"
    by simp_all
  have f: "fEdep2 (action (process_event t e)) = fEdep2 (action t) + e * e"
    by (simp add: fEdep2_process_event double_mul_exact [OF 0] double_add_exact [OF 1])
  from 2 have "exact_sums (fEdep2 (action (process_event t e))) (map (\<lambda>e. e * e) events)"
    by (simp add: f)
  from Cons.IH [OF r this] show ?case
    by (simp add: f)
qed

lemma run_events_fOutputDir:
  "fOutputDir (action (foldl process_event t events)) = fOutputDir (action t)"
  by (induction events arbitrary: t) (simp_all add: process_event_def AddEdep_def)

lemma run_events_numberOfEvent:
  "numberOfEvent (foldl process_event t events) = numberOfEvent t + int (length events)"
  by (induction events arbitrary: t) (simp_all add: process_event_def)

lemma merge_runs_fEdep:
  "exact_sums (fEdep (action m)) (map (\<lambda>w. fEdep (action w)) ws) \<Longrightarrow>
   fEdep (action (foldl merge_run m ws)) = fEdep (action m) + sum_list (map (\<lambda>w. fEdep (action w)) ws)"
proof (induction ws arbitrary: m)
  case Nil
  then show ?case by simp
next
  case (Cons w ws)
  from Cons.prems have 1: "is_double (fEdep (action m) + fEdep (action w))"
    and 2: "exact_sums (fEdep (action m) + fEdep (action w)) (map (\<lambda>w. fEdep (action w)) ws)"
    by simp_all
  have f: "fEdep (action (merge_run m w)) = fEdep (action m) + fEdep (action w)"
    by (simp add: fEdep_merge_run double_add_exact [OF 1])
  from 2 have "exact_sums (fEdep (action (merge_run m w))) (map (\<lambda>w. fEdep (action w)) ws)"
    by (simp add: f)
  from Cons.IH [OF this] show ?case
    by (simp add: f)
qed

lemma merge_runs_fEdep2:
  "exact_sums (fEdep2 (action m)) (map (\<lambda>w. fEdep2 (action w)) ws) \<Longrightarrow>
   fEdep2 (action (foldl merge_run m ws)) = fEdep2 (action m) + sum_list (map (\<lambda>w. fEdep2 (action w)) ws)"
proof (induction ws arbitrary: m)
  case Nil
  then show ?case by simp
next
  case (Cons w ws)
  from Cons.prems have 1: "is_double (fEdep2 (action m) + fEdep2 (action w))"
    and 2: "exact_sums (fEdep2 (action m) + fEdep2 (action w)) (map (\<lambda>w. fEdep2 (action w)) ws)"
    by simp_all
  have f: "fEdep2 (action (merge_run m w)) = fEdep2 (action m) + fEdep2 (action w)"
    by (simp add: fEdep2_merge_run double_add_exact [OF 1])
  from 2 have "exact_sums (fEdep2 (action (merge_run m w))) (map (\<lambda>w. fEdep2 (action w)) ws)"
    by (simp add: f)
  from Cons.IH [OF this] show ?case
    by (simp add: f)
qed

lemma merge_runs_fOutputDir:
  "fOutputDir (action (foldl merge_run m ws)) = fOutputDir (action m)"
  by (induction ws arbitrary: m) (simp_all add: merge_run_def mergeFrom_def)

lemma merge_runs_numberOfEvent:
  "numberOfEvent (foldl merge_run m ws) = numberOfEvent m + sum_list (map numberOfEvent ws)"
  by (induction ws arbitrary: m) (simp_all add: merge_run_def)

text \<open>The accumulables of the merged runs are the merged accumulables.\<close>

lemma action_merge_runs:
  "action (foldl merge_run m ws) = Merge (map action ws) (action m)"
  unfolding Merge_def by (induction ws arbitrary: m) (simp_all add: merge_run_def)

lemma sum_list_shards:
  fixes f :: "real \<Rightarrow> real"
  shows "sum_list (map (\<lambda>sh. sum_list (map f sh)) shards) = sum_list (map f (concat shards))"
  by (induction shards) simp_all

lemma length_shards:
  "sum_list (map (\<lambda>sh. int (length sh)) shards) = int (length (concat shards))"
  by (induction shards) simp_all

lemma exact_run_sums:
  assumes "exact_run events"
  shows "fEdep (action (run_events dir events)) = sum_list events"
    and "fEdep2 (action (run_events dir events)) = sum_list (map (\<lambda>e. e * e) events)"
proof -
  have z: "fEdep (action (begin_run dir)) = 0" "fEdep2 (action (begin_run dir)) = 0"
    by (simp_all add: begin_run_def Reset_def)
  from assms have 1: "exact_sums (fEdep (action (begin_run dir))) events"
    and 2: "list_all (\<lambda>e. is_double (e * e)) events"
    and 3: "exact_sums (fEdep2 (action (begin_run dir))) (map (\<lambda>e. e * e) events)"
    by (simp_all add: exact_run_def z)
  show "fEdep (action (run_events dir events)) = sum_list events"
    using run_events_fEdep [OF 1] by (simp add: run_events_def z)
  show "fEdep2 (action (run_events dir events)) = sum_list (map (\<lambda>e. e * e) events)"
    using run_events_fEdep2 [OF 2 3] by (simp add: run_events_def z)
qed

lemma merged_workers_sums:
  assumes parts: "mset (concat shards) = mset events"
    and order: "mset workers = mset (map (run_events dir) shards)"
    and exact: "list_all exact_run shards"
  shows "sum_list (map (\<lambda>w. fEdep (action w)) workers) = sum_list events"
    and "sum_list (map (\<lambda>w. fEdep2 (action w)) workers) = sum_list (map (\<lambda>e. e * e) events)"
    and "sum_list (map numberOfEvent workers) = int (length events)"
proof -
  have len: "length (concat shards) = length events"
    using parts by (metis size_mset)
  have s1: "map (\<lambda>w. fEdep (action w)) (map (run_events dir) shards) = map sum_list shards"
    using exact by (induction shards) (simp_all add: exact_run_sums)
  have s2: "map (\<lambda>w. fEdep2 (action w)) (map (run_events dir) shards)
      = map (\<lambda>sh. sum_list (map (\<lambda>e. e * e) sh)) shards"
    using exact by (induction shards) (simp_all add: exact_run_sums)
  have "sum_list (map (\<lambda>w. fEdep (action w)) workers)
      = sum_list (map (\<lambda>w. fEdep (action w)) (map (run_events dir) shards))"
    by (rule sum_list_map_mset_cong [OF order])
  also have "\<dots> = sum_list (map (\<lambda>sh. sum_list (map (\<lambda>e. e) sh)) shards)"
    by (simp only: s1) simp
  also have "\<dots> = sum_list (map (\<lambda>e. e) (concat shards))"
    by (rule sum_list_shards)
  also have "\<dots> = sum_list (map (\<lambda>e. e) events)"
    by (rule sum_list_map_mset_cong [OF parts])
  finally show "sum_list (map (\<lambda>w. fEdep (action w)) workers) = sum_list events"
    by simp
  have "sum_list (map (\<lambda>w. fEdep2 (action w)) workers)
      = sum_list (map (\<lambda>w. fEdep2 (action w)) (map (run_events dir) shards))"
    by (rule sum_list_map_mset_cong [OF order])
  also have "\<dots> = sum_list (map (\<lambda>sh. sum_list (map (\<lambda>e. e * e) sh)) shards)"
    by (simp only: s2)
  also have "\<dots> = sum_list (map (\<lambda>e. e * e) (concat shards))"
    by (rule sum_list_shards)
  also have "\<dots> = sum_list (map (\<lambda>e. e * e) events)"
    by (rule sum_list_map_mset_cong [OF parts])
  finally show "sum_list (map (\<lambda>w. fEdep2 (action w)) workers) = sum_list (map (\<lambda>e. e * e) events)" .
  have "sum_list (map numberOfEvent workers)
      = sum_list (map numberOfEvent (map (run_events dir) shards))"
    by (rule sum_list_map_mset_cong [OF order])
  also have "\<dots> = sum_list (map (\<lambda>sh. int (length sh)) shards)"
    by (simp add: run_events_def run_events_numberOfEvent begin_run_def comp_def)
  also have "\<dots> = int (length (concat shards))"
    by (rule length_shards)
  finally show "sum_list (map numberOfEvent workers) = int (length events)"
    using len by simp
qed

text \<open>
  C1, as stated, fails: one worker processes the deposit \<open>2\<^sup>5\<^sup>3\<close> and another the deposits
  1 and 1. Merged into the reset master their sums give \<open>2\<^sup>5\<^sup>3 + 2\<close>; one accumulator fed
  the same three deposits ends with \<open>2\<^sup>5\<^sup>3\<close>.
\<close>

theorem merge_workers_counterexample:
  "mset (concat [[9007199254740992], [1, 1 :: real]]) = mset [9007199254740992, 1, 1] \<and>
   fEdep (action (foldl merge_run (begin_run ''out'')
            (map (run_events ''out'') [[9007199254740992], [1, 1]]))) = 9007199254740994 \<and>
   fEdep (action (run_events ''out'' [9007199254740992, 1, 1])) = 9007199254740992"
  by (simp add: run_events_def fEdep_merge_run fEdep_process_event begin_run_def Reset_def
      double_add_def rnd_Ints rnd_2_53 rnd_2_53_plus_1 rnd_2_53_plus_2)

text \<open>
  C1, amended: let the events of a run be partitioned among the workers in any way
  (\<open>shards\<close>, one list of per-event deposits per worker, together a rearrangement of
  \<open>events\<close>), and let the workers' final accumulators be merged into the reset master
  field-wise in any order (\<open>workers\<close>, a rearrangement of the workers' runs). If no square
  and no addition rounds - in the workers' runs, in the merge in that order, and in the
  run of one accumulator fed all events - then the merged accumulator holds the same sum,
  sum of squares and event count as the one accumulator, and the end of run derives the
  same statistics (total, mean, rms) from it.
\<close>

theorem merge_workers_equals_single_accumulator:
  assumes parts: "mset (concat shards) = mset events"
    and order: "mset workers = mset (map (run_events dir) shards)"
    and exact_workers: "list_all exact_run shards"
    and exact_merge: "exact_sums 0 (map (\<lambda>w. fEdep (action w)) workers)"
      "exact_sums 0 (map (\<lambda>w. fEdep2 (action w)) workers)"
    and exact_single: "exact_run events"
  shows "foldl merge_run (begin_run dir) workers = run_events dir events \<and>
         EndOfRunAction (numberOfEvent (foldl merge_run (begin_run dir) workers)) isMaster
             (map action workers) (s\<lparr>runAction := action (begin_run dir)\<rparr>) =
         EndOfRunAction (numberOfEvent (run_events dir events)) isMaster
             [] (s\<lparr>runAction := action (run_events dir events)\<rparr>)"
proof -
  note sums = merged_workers_sums [OF parts order exact_workers]
  have z: "fEdep (action (begin_run dir)) = 0" "fEdep2 (action (begin_run dir)) = 0"
    by (simp_all add: begin_run_def Reset_def)
  have m1: "fEdep (action (foldl merge_run (begin_run dir) workers)) = sum_list events"
    using merge_runs_fEdep [of "begin_run dir" workers] exact_merge(1) by (simp add: z sums)
  have m2: "fEdep2 (action (foldl merge_run (begin_run dir) workers))
      = sum_list (map (\<lambda>e. e * e) events)"
    using merge_runs_fEdep2 [of "begin_run dir" workers] exact_merge(2) by (simp add: z sums)
  have f1: "fEdep (action (foldl merge_run (begin_run dir) workers))
      = fEdep (action (run_events dir events))"
    by (simp add: m1 exact_run_sums [OF exact_single])
  have f2: "fEdep2 (action (foldl merge_run (begin_run dir) workers))
      = fEdep2 (action (run_events dir events))"
    by (simp add: m2 exact_run_sums [OF exact_single])
  have f3: "fOutputDir (action (foldl merge_run (begin_run dir) workers))
      = fOutputDir (action (run_events dir events))"
    by (simp add: merge_runs_fOutputDir run_events_def run_events_fOutputDir)
  have acc: "action (foldl merge_run (begin_run dir) workers) = action (run_events dir events)"
    by (rule RunAction.equality) (simp_all add: f1 f2 f3)
  have cnt: "numberOfEvent (foldl merge_run (begin_run dir) workers) = numberOfEvent (run_events dir events)"
    by (simp add: merge_runs_numberOfEvent sums run_events_def run_events_numberOfEvent)
  have eq: "foldl merge_run (begin_run dir) workers = run_events dir events"
    by (rule thread_run.equality) (simp_all add: acc cnt)
  have mrg: "Merge (map action workers) (action (begin_run dir)) = action (run_events dir events)"
    using acc by (simp add: action_merge_runs)
  have n0: "action (run_events dir events) = action (begin_run dir)"
    if "numberOfEvent (run_events dir events) = 0"
  proof -
    from that have "events = []"
      by (simp add: run_events_def run_events_numberOfEvent begin_run_def)
    then show ?thesis by (simp add: run_events_def)
  qed
  have "EndOfRunAction (numberOfEvent (run_events dir events)) isMaster (map action workers)
          (s\<lparr>runAction := action (begin_run dir)\<rparr>) =
        EndOfRunAction (numberOfEvent (run_events dir events)) isMaster []
          (s\<lparr>runAction := action (run_events dir events)\<rparr>)"
  proof (cases "numberOfEvent (run_events dir events) = 0")
    case True
    then show ?thesis by (simp add: EndOfRunAction_def n0)
  next
    case False
    then show ?thesis
      by (simp add: EndOfRunAction_def mrg Merge_def [of "[]"] Let_def Save_def)
  qed
  then show ?thesis using eq by simp
qed

lemma exact_run_sample: "exact_run [1, 2]" "exact_run [3]" "exact_run [3, 1, 2]"
  by (simp_all add: exact_run_def is_double_Ints)

lemma run_events_sample:
  "fEdep (action (run_events ''out'' [3])) = 3" "fEdep2 (action (run_events ''out'' [3])) = 9"
  "fEdep (action (run_events ''out'' [1, 2])) = 3" "fEdep2 (action (run_events ''out'' [1, 2])) = 5"
  by (simp_all add: exact_run_sums exact_run_sample)

theorem merge_workers_witness:
  "mset (concat [[1, 2], [3 :: real]]) = mset [3, 1, 2] \<and>
   mset [run_events ''out'' [3], run_events ''out'' [1, 2]] =
     mset (map (run_events ''out'') [[1, 2], [3]]) \<and>
   list_all exact_run [[1, 2], [3]] \<and>
   exact_sums 0 (map (\<lambda>w. fEdep (action w)) [run_events ''out'' [3], run_events ''out'' [1, 2]]) \<and>
   exact_sums 0 (map (\<lambda>w. fEdep2 (action w)) [run_events ''out'' [3], run_events ''out'' [1, 2]]) \<and>
   exact_run [3, 1, 2] \<and>
   foldl merge_run (begin_run ''out'') [run_events ''out'' [3], run_events ''out'' [1, 2]] =
     run_events ''out'' [3, 1, 2] \<and>
   EndOfRunAction
       (numberOfEvent (foldl merge_run (begin_run ''out'')
          [run_events ''out'' [3], run_events ''out'' [1, 2]])) True
       (map action [run_events ''out'' [3], run_events ''out'' [1, 2]])
       ((fresh_process ''out'')\<lparr>runAction := action (begin_run ''out'')\<rparr>) =
   EndOfRunAction (numberOfEvent (run_events ''out'' [3, 1, 2])) True []
       ((fresh_process ''out'')\<lparr>runAction := action (run_events ''out'' [3, 1, 2])\<rparr>)"
proof -
  have h1: "mset (concat [[1, 2], [3 :: real]]) = mset [3, 1, 2]"
    by simp
  have h2: "mset [run_events ''out'' [3], run_events ''out'' [1, 2]] =
      mset (map (run_events ''out'') [[1, 2], [3]])"
    by (simp add: add_mset_commute)
  have h3: "list_all exact_run [[1, 2], [3]]"
    by (simp add: exact_run_sample)
  have h4: "exact_sums 0 (map (\<lambda>w. fEdep (action w)) [run_events ''out'' [3], run_events ''out'' [1, 2]])"
    by (simp add: run_events_sample is_double_Ints)
  have h5: "exact_sums 0 (map (\<lambda>w. fEdep2 (action w)) [run_events ''out'' [3], run_events ''out'' [1, 2]])"
    by (simp add: run_events_sample is_double_Ints)
  have h6: "exact_run [3, 1, 2]"
    by (simp add: exact_run_sample)
  from merge_workers_equals_single_accumulator [OF h1 h2 h3 h4 h5 h6, of True "fresh_process ''out''"]
    h1 h2 h3 h4 h5 h6
  show ?thesis by blast
qed

subsection \<open>The statistics of the end of run\<close>



text \<open>
  C4, as stated, fails: after a run of zero events the end of run yields no summary at
  all, so no mean and no rms of value 0.
\<close>

theorem derive_zero_events_counterexample:
  "\<not> yields_sentinel (BeginOfRunAction (fresh_process ''out''))
        (EndOfRunAction 0 True [] (BeginOfRunAction (fresh_process ''out'')))"
  by (simp add: yields_sentinel_def EndOfRunAction_def)

text \<open>
  C4, amended: with zero events the end of run raises no division fault and produces no
  summary: no mean and no rms is computed or printed.
\<close>

theorem EndOfRunAction_zero_events_no_summary:
  "cout (EndOfRunAction 0 isMaster workers s) = cout s"
  by (simp add: EndOfRunAction_def)

subsection \<open>Saving at the end of run\<close>

text \<open>
  The end of a run that processed events writes and closes the output file exactly once,
  after the merge; the end of a run of zero events sends nothing to the analysis manager.
\<close>

lemma EndOfRunAction_saves_once:
  "analysisManager (EndOfRunAction nofEvents isMaster workers s) =
     (if nofEvents = 0 then analysisManager s else analysisManager s @ [AM_Write, AM_CloseFile])"
  by (simp add: EndOfRunAction_def Let_def Save_def)

text \<open>
  C9: the run summary should be saved exactly once at the end of every run, also of a run
  that processed zero events. At the end of a zero-event run the code returns before
  \<^verbatim>\<open>Save\<close>: the file that \<^verbatim>\<open>Book\<close> opened at the begin of run is neither written nor
  closed, and \<^verbatim>\<open>fBooked\<close> stays set.
\<close>

theorem zero_event_run_never_saved:
  "AM_OpenFile \<in> set (analysisManager (EndOfRunAction 0 True [] (BeginOfRunAction (fresh_process ''out'')))) \<and>
   AM_Write \<notin> set (analysisManager (EndOfRunAction 0 True [] (BeginOfRunAction (fresh_process ''out'')))) \<and>
   AM_CloseFile \<notin> set (analysisManager (EndOfRunAction 0 True [] (BeginOfRunAction (fresh_process ''out'')))) \<and>
   fBooked (analysis (EndOfRunAction 0 True [] (BeginOfRunAction (fresh_process ''out''))))"
  by (simp add: EndOfRunAction_def BeginOfRunAction_def Book_def SetOutputDirectory_def
      fresh_process_def Let_def)

subsection \<open>Booking\<close>

lemma Book_booked: "fBooked (analysis (Book s))"
  by (simp add: Book_def Let_def)

lemma Book_when_booked: "fBooked (analysis s) \<Longrightarrow> Book s = s"
  by (simp add: Book_def)

lemma Analysis_do_keeps_booked:
  "c \<noteq> Call_Save \<Longrightarrow> fBooked (analysis s) \<Longrightarrow> fBooked (analysis (Analysis_do c s))"
  by (cases c)
     (simp_all add: SetOutputDirectory_def Book_def FillH1_def FillH2_def FillNtupleIColumn_def
        FillNtupleDColumn_def FillNtupleSColumn_def AddNtupleRow_def)

lemma fold_Analysis_do_keeps_booked:
  "Call_Save \<notin> set calls \<Longrightarrow> fBooked (analysis s) \<Longrightarrow> fBooked (analysis (fold Analysis_do calls s))"
proof (induction calls arbitrary: s)
  case Nil
  then show ?case by simp
next
  case (Cons c calls)
  from Cons.prems have "c \<noteq> Call_Save" and rest: "Call_Save \<notin> set calls"
    by auto
  then have "fBooked (analysis (Analysis_do c s))"
    using Cons.prems(2) by (simp add: Analysis_do_keeps_booked)
  then show ?case
    using Cons.IH [OF rest] by simp
qed

text \<open>
  C10: once \<^verbatim>\<open>Book\<close> has run, and whatever calls other than \<^verbatim>\<open>Save\<close> the analysis has
  received since, a further \<^verbatim>\<open>Book\<close> changes nothing: no call reaches the analysis
  manager (no second file, histogram or ntuple) and the analysis keeps its state.
\<close>

theorem Book_idempotent_until_Save:
  assumes "Call_Save \<notin> set calls"
  shows "Book (fold Analysis_do calls (Book s)) = fold Analysis_do calls (Book s)"
  by (rule Book_when_booked) (rule fold_Analysis_do_keeps_booked [OF assms Book_booked])

theorem Book_idempotent_until_Save_witness:
  "Call_Save \<notin> set [Call_FillH1 0 1, Call_SetOutputDirectory ''other'', Call_Book, Call_AddNtupleRow] \<and>
   Book (fold Analysis_do [Call_FillH1 0 1, Call_SetOutputDirectory ''other'', Call_Book, Call_AddNtupleRow]
           (Book (fresh_process ''out''))) =
   fold Analysis_do [Call_FillH1 0 1, Call_SetOutputDirectory ''other'', Call_Book, Call_AddNtupleRow]
           (Book (fresh_process ''out''))"
proof -
  have h: "Call_Save \<notin> set [Call_FillH1 0 1, Call_SetOutputDirectory ''other'', Call_Book, Call_AddNtupleRow]"
    by simp
  from Book_idempotent_until_Save [OF h, of "fresh_process ''out''"] h
  show ?thesis by blast
qed

subsection \<open>Calls out of sequence\<close>



subsection \<open>Hits per step\<close>

text \<open>
  C3, as stated, fails for the B2a tracker: a step with a negative energy deposit (at most
  0) appends a hit.
\<close>

theorem TrackerSD_negative_deposit_counterexample:
  "TrackerSD_ProcessHits (a_step (- 1)) (TrackerSD_Initialize \<lparr>TrackerSD_fHitsCollection = None\<rparr>) =
     Inr (True, \<lparr>TrackerSD_fHitsCollection =
       Some [\<lparr>TrackerHit_fTrackID = 1, fChamberNb = 2, TrackerHit_fEdep = - 1, fPos = (0, 0, 1),
              fTime = 1, TrackerHit_fParticleName = ''e-''\<rparr>]\<rparr>)"
  by (simp add: TrackerSD_ProcessHits_def TrackerSD_Initialize_def a_step_def)

text \<open>
  C3, amended: on an initialised detector, \<^verbatim>\<open>SensitiveDetector::ProcessHits\<close> appends no
  hit for a deposit of at most 0 and exactly one for a positive deposit;
  \<^verbatim>\<open>TrackerSD::ProcessHits\<close> appends no hit for a deposit of 0 and exactly one for a
  positive deposit. The hits collected before stay in place, and the value returned tells
  whether a hit was appended.
\<close>

theorem ProcessHits_appends_at_most_one:
  assumes "fHitsCollection sd = Some hc" and "TrackerSD_fHitsCollection tsd = Some thc"
  shows "(\<exists>sd' hc'. ProcessHits eventID step sd = Inr (0 < TotalEnergyDeposit step, sd') \<and>
            fHitsCollection sd' = Some hc' \<and> take (length hc) hc' = hc \<and>
            length hc' = length hc + (if 0 < TotalEnergyDeposit step then 1 else 0)) \<and>
         (0 \<le> TotalEnergyDeposit step \<longrightarrow>
           (\<exists>tsd' thc'. TrackerSD_ProcessHits step tsd = Inr (0 < TotalEnergyDeposit step, tsd') \<and>
              TrackerSD_fHitsCollection tsd' = Some thc' \<and> take (length thc) thc' = thc \<and>
              length thc' = length thc + (if 0 < TotalEnergyDeposit step then 1 else 0)))"
  using assms
  by (auto simp add: ProcessHits_def TrackerSD_ProcessHits_def Let_def)

theorem ProcessHits_appends_at_most_one_witness:
  "fHitsCollection (Initialize 0 \<lparr>fHitsCollection = None, fHCID = - 1\<rparr>) = Some [] \<and>
   TrackerSD_fHitsCollection (TrackerSD_Initialize \<lparr>TrackerSD_fHitsCollection = None\<rparr>) = Some [] \<and>
   0 \<le> TotalEnergyDeposit (a_step 2) \<and>
   (\<exists>sd' hc'. ProcessHits 7 (a_step 2) (Initialize 0 \<lparr>fHitsCollection = None, fHCID = - 1\<rparr>) = Inr (True, sd') \<and>
       fHitsCollection sd' = Some hc' \<and> length hc' = 1) \<and>
   (\<exists>tsd' thc'. TrackerSD_ProcessHits (a_step 2) (TrackerSD_Initialize \<lparr>TrackerSD_fHitsCollection = None\<rparr>) = Inr (True, tsd') \<and>
       TrackerSD_fHitsCollection tsd' = Some thc' \<and> length thc' = 1)"
proof -
  have h1: "fHitsCollection (Initialize 0 \<lparr>fHitsCollection = None, fHCID = - 1\<rparr>) = Some []"
    by (simp add: Initialize_def)
  have h2: "TrackerSD_fHitsCollection (TrackerSD_Initialize \<lparr>TrackerSD_fHitsCollection = None\<rparr>) = Some []"
    by (simp add: TrackerSD_Initialize_def)
  have e: "TotalEnergyDeposit (a_step 2) = 2"
    by (simp add: a_step_def)
  from ProcessHits_appends_at_most_one [OF h1 h2, of 7 "a_step 2"] h1 h2
  show ?thesis by (simp add: e)
qed

subsection \<open>Chamber spacing and chamber width\<close>







subsection \<open>Discovery of the sensitive volumes\<close>

lemma assign_Nil: "assign [] dc = dc"
  by (simp add: assign_def)

lemma assign_append: "assign ys (assign xs dc) = assign (xs @ ys) dc"
  by (simp add: assign_def map_of_append)

lemma fParser_assign: "fParser (assign kvs dc) = fParser dc"
  by (simp add: assign_def)

lemma assign_single:
  "dc\<lparr>fSensitiveVolumes := fSensitiveVolumes dc @ [k], fLogicalVolumes := (fLogicalVolumes dc)(k \<mapsto> v)\<rparr>
     = assign [(k, v)] dc"
  by (simp add: assign_def map_add_def fun_eq_iff)

lemma aux_loop_assign: "aux_loop lv auxList dc = assign (found_aux lv auxList) dc"
proof (induction auxList arbitrary: dc)
  case Nil
  then show ?case by (simp add: found_aux_def assign_Nil)
next
  case (Cons a auxList)
  show ?case
  proof (cases "aux_type a = ''SensDet''")
    case True
    then show ?thesis
      using Cons.IH by (simp add: assign_single assign_append found_aux_def)
  next
    case False
    then show ?thesis
      using Cons.IH by (simp add: found_aux_def)
  qed
qed

lemma check_aux_assign: "check_aux lv dc = assign (found_here (fParser dc) lv) dc"
  by (simp add: check_aux_def found_here_def aux_loop_assign assign_Nil split: option.splits)

lemma FindSensitiveVolumes_assign:
  "FindSensitiveVolumes lv dc = assign (found (fParser dc) lv) dc"
  "daughters_loop lvs dc = assign (found_list (fParser dc) lvs) dc"
proof (induction lv dc and lvs dc rule: FindSensitiveVolumes_daughters_loop.induct)
  case (1 name ds dc)
  then show ?case
    by (simp add: check_aux_assign fParser_assign assign_append)
next
  case (2 dc)
  then show ?case by (simp add: assign_Nil)
next
  case (3 d ds dc)
  then show ?case
    by (simp add: fParser_assign assign_append)
qed

lemma map_add_twice: "(m ++ f) ++ f = m ++ f"
  by (simp add: map_add_def fun_eq_iff split: option.splits)

text \<open>
  C8, as stated, fails: on the sample geometry the list of sensitive volumes after a
  second traversal differs from the list after the first.
\<close>

theorem discovery_twice_counterexample:
  "fSensitiveVolumes (FindSensitiveVolumes gdml_world gdml_detector) = [''Det''] \<and>
   fSensitiveVolumes (FindSensitiveVolumes gdml_world (FindSensitiveVolumes gdml_world gdml_detector)) =
     [''Det'', ''Det''] \<and>
   fSensitiveVolumes (FindSensitiveVolumes gdml_world (FindSensitiveVolumes gdml_world gdml_detector)) \<noteq>
   fSensitiveVolumes (FindSensitiveVolumes gdml_world gdml_detector)"
  by (simp add: gdml_world_def gdml_detector_def gdml_parser_def check_aux_def)

text \<open>
  C8, amended: a second traversal of the same tree leaves the mapping from names to
  volumes and the set of listed names as the first traversal left them.
\<close>

theorem discovery_twice:
  "fLogicalVolumes (FindSensitiveVolumes lv (FindSensitiveVolumes lv dc)) =
     fLogicalVolumes (FindSensitiveVolumes lv dc) \<and>
   set (fSensitiveVolumes (FindSensitiveVolumes lv (FindSensitiveVolumes lv dc))) =
     set (fSensitiveVolumes (FindSensitiveVolumes lv dc))"
  by (simp add: FindSensitiveVolumes_assign fParser_assign assign_def map_add_twice)

text \<open>
  The list itself is appended to and never cleared: after the second traversal it is the
  list after the first, followed once more by the names the first traversal added.
\<close>

lemma discovery_twice_list:
  "fSensitiveVolumes (FindSensitiveVolumes lv (FindSensitiveVolumes lv dc)) =
     fSensitiveVolumes (FindSensitiveVolumes lv dc) @
     drop (length (fSensitiveVolumes dc)) (fSensitiveVolumes (FindSensitiveVolumes lv dc))"
  by (simp add: FindSensitiveVolumes_assign fParser_assign assign_def)


text \<open>From equal members, a traversal of the same tree gives equal members.\<close>

lemma discovery_deterministic:
  "fParser dc = fParser dc' \<Longrightarrow> fSensitiveVolumes dc = fSensitiveVolumes dc' \<Longrightarrow>
   fLogicalVolumes dc = fLogicalVolumes dc' \<Longrightarrow>
   fSensitiveVolumes (FindSensitiveVolumes lv dc) = fSensitiveVolumes (FindSensitiveVolumes lv dc') \<and>
   fLogicalVolumes (FindSensitiveVolumes lv dc) = fLogicalVolumes (FindSensitiveVolumes lv dc')"
  by (simp add: FindSensitiveVolumes_assign assign_def)


end
